theory Spec2Isabelle
  imports Main "HOL-Library.Word"
begin

section \<open>Python values used by thunder/core/proxies.py\<close>

text \<open>
  Exceptions are values. The first group are Python's own exceptions, the second group are
  the failures of the collaborators of this module (the trace's name registry and the
  validation helpers of baseutils).
\<close>

datatype error =
    NameError | TypeError | AttributeError | KeyError | ValueError
  | ZeroDivisionError | OverflowError
  | CheckTypeError | DuplicateNameError
  | InvalidShapeError | InvalidDeviceError | InvalidDTypeError

text \<open>
  A Python number. A float is its 64 IEEE bits; no floating-point arithmetic is evaluated
  in this development (it is a parameter of the runtime below), floats are only stored.
\<close>

datatype pynum =
    PBool bool
  | PInt int
  | PFloat "64 word"
  | PComplex "64 word" "64 word"

text \<open>The Python types \<open>bool\<close>, \<open>int\<close>, \<open>float\<close>, \<open>complex\<close> as objects.\<close>

datatype pytype = Bool_t | Int_t | Float_t | Complex_t

text \<open>
  Objects of the device and dtype catalogs are external: a Python number type used as a
  dtype, or a named object of another module (a device, a dtype, anything else).
\<close>

datatype token = PyType pytype | Tok string

text \<open>The four NumberProxy classes of the module.\<close>

datatype number_class = NumberProxy | ComplexProxy | IntegerProxy | FloatProxy

text \<open>
  A NumberProxy instance: \<open>_name\<close>, \<open>value\<close> (None when unknown), \<open>python_type\<close>, and the
  numeral that \<open>__new__\<close> stores in the int, float or complex part of the object
  (absent for a direct instance of the class NumberProxy, which has no numeric base).
\<close>

record number_proxy =
  np_class :: number_class
  np_name :: string
  np_value :: "pynum option"
  np_python_type :: pytype
  np_base :: "pynum option"

text \<open>A TensorProxy instance with the attributes set by \<open>__init__\<close>.\<close>

record tensor_proxy =
  tp_name :: string
  tp_shape :: "int list"
  tp_device :: token
  tp_dtype :: token
  tp_true_dtype :: token
  tp_numel :: int
  tp_ndim :: nat

text \<open>Every instance of ProxyInterface: a plain Proxy, a NumberProxy or a TensorProxy.\<close>

datatype proxy =
    PBase string
  | PNum number_proxy
  | PTen tensor_proxy

fun name :: "proxy \<Rightarrow> string" where
  "name (PBase n) = n"
| "name (PNum p) = np_name p"
| "name (PTen t) = tp_name t"

text \<open>
  The objects that reach the functions of this module: None, NotImplemented, numbers,
  tuples, strings, exception instances, catalog objects, objects bound at module level,
  proxies, and Variables (a Variable holds the proxy given to its constructor).
\<close>

datatype pyobj =
    NoneObj
  | NotImplementedObj
  | PyNum pynum
  | PyTuple "pyobj list"
  | PyStr string
  | PyExc error
  | PyExt token
  | PyGlobal string
  | Prx proxy
  | Variable proxy

section \<open>Variable, variableify, unvariableify\<close>

text \<open>\<open>isinstance(x, ProxyInterface)\<close> and \<open>isinstance(x, Variable)\<close>.\<close>

fun is_ProxyInterface :: "pyobj \<Rightarrow> bool" where
  "is_ProxyInterface (Prx p) = True"
| "is_ProxyInterface _ = False"

fun is_Variable :: "pyobj \<Rightarrow> bool" where
  "is_Variable (Variable p) = True"
| "is_Variable _ = False"

text \<open>
  \<open>Variable.__eq__(self, other)\<close>: the names are compared when \<open>other\<close> is a Variable,
  any other object gives False.
\<close>

fun Variable_eq :: "proxy \<Rightarrow> pyobj \<Rightarrow> bool" where
  "Variable_eq p (Variable q) = (name p = name q)"
| "Variable_eq p _ = False"

fun variableify :: "pyobj \<Rightarrow> pyobj" where
  "variableify (Prx p) = Variable p"
| "variableify x = x"

fun unvariableify :: "pyobj \<Rightarrow> pyobj" where
  "unvariableify (Variable p) = Prx p"
| "unvariableify x = x"

section \<open>The Python runtime: arithmetic and hashing of native numbers\<close>

text \<open>
  What Python itself contributes is a parameter of the model: conversions between int and
  float, floating-point and complex arithmetic, and the built-in \<open>hash\<close>. Integer
  arithmetic is exact and is written out below.
\<close>

datatype binop =
    Op_add | Op_sub | Op_mul | Op_truediv | Op_floordiv
  | Op_mod | Op_divmod | Op_pow | Op_lshift | Op_rshift

record runtime =
  int_to_float :: "int \<Rightarrow> error + 64 word"
  float_to_int :: "64 word \<Rightarrow> error + int"
  int_true_divide :: "int \<Rightarrow> int \<Rightarrow> error + 64 word"
  float_arith :: "binop \<Rightarrow> 64 word \<Rightarrow> 64 word \<Rightarrow> error + pyobj"
  complex_arith :: "binop \<Rightarrow> 64 word \<times> 64 word \<Rightarrow> 64 word \<times> 64 word \<Rightarrow> error + pyobj"
  num_hash :: "pynum \<Rightarrow> int"
  none_hash :: int
  str_hash :: "string \<Rightarrow> int"
  object_hash :: "proxy \<Rightarrow> int"

definition seq :: "error + 'a \<Rightarrow> ('a \<Rightarrow> error + 'b) \<Rightarrow> error + 'b" where
  "seq m f = (case m of Inl e \<Rightarrow> Inl e | Inr x \<Rightarrow> f x)"

text \<open>
  The numeric tower: bool and int share the integer implementation, float accepts
  integers and floats, complex accepts all three.
\<close>

datatype numkind = KInt | KFloat | KComplex

fun kind_of :: "pynum \<Rightarrow> numkind" where
  "kind_of (PBool b) = KInt"
| "kind_of (PInt i) = KInt"
| "kind_of (PFloat f) = KFloat"
| "kind_of (PComplex r i) = KComplex"

fun rank :: "numkind \<Rightarrow> nat" where
  "rank KInt = 0"
| "rank KFloat = 1"
| "rank KComplex = 2"

text \<open>
  Which binary operations a built-in numeric type implements: int has all of them, float
  has no shifts, complex has neither shifts nor floor division, modulo and divmod.
\<close>

fun has_slot :: "numkind \<Rightarrow> binop \<Rightarrow> bool" where
  "has_slot KInt op = True"
| "has_slot KFloat op = (op \<noteq> Op_lshift \<and> op \<noteq> Op_rshift)"
| "has_slot KComplex op =
     (op = Op_add \<or> op = Op_sub \<or> op = Op_mul \<or> op = Op_truediv \<or> op = Op_pow)"

fun as_int :: "pynum \<Rightarrow> int" where
  "as_int (PBool b) = (if b then 1 else 0)"
| "as_int (PInt i) = i"
| "as_int (PFloat f) = 0"
| "as_int (PComplex r i) = 0"

fun as_float :: "runtime \<Rightarrow> pynum \<Rightarrow> error + 64 word" where
  "as_float rt (PFloat f) = Inr f"
| "as_float rt (PComplex r i) = Inl TypeError"
| "as_float rt n = int_to_float rt (as_int n)"

fun as_complex :: "runtime \<Rightarrow> pynum \<Rightarrow> error + 64 word \<times> 64 word" where
  "as_complex rt (PComplex r i) = Inr (r, i)"
| "as_complex rt n = seq (as_float rt n) (\<lambda>f. Inr (f, 0))"

text \<open>
  Python's integer arithmetic. Floor division and modulo round towards minus infinity, as
  \<open>div\<close> and \<open>mod\<close> on \<open>int\<close> do; a negative exponent continues in floating point; true
  division gives a float.
\<close>

fun int_arith :: "runtime \<Rightarrow> binop \<Rightarrow> int \<Rightarrow> int \<Rightarrow> error + pyobj" where
  "int_arith rt Op_add a b = Inr (PyNum (PInt (a + b)))"
| "int_arith rt Op_sub a b = Inr (PyNum (PInt (a - b)))"
| "int_arith rt Op_mul a b = Inr (PyNum (PInt (a * b)))"
| "int_arith rt Op_truediv a b =
     (if b = 0 then Inl ZeroDivisionError
      else seq (int_true_divide rt a b) (\<lambda>f. Inr (PyNum (PFloat f))))"
| "int_arith rt Op_floordiv a b =
     (if b = 0 then Inl ZeroDivisionError else Inr (PyNum (PInt (a div b))))"
| "int_arith rt Op_mod a b =
     (if b = 0 then Inl ZeroDivisionError else Inr (PyNum (PInt (a mod b))))"
| "int_arith rt Op_divmod a b =
     (if b = 0 then Inl ZeroDivisionError
      else Inr (PyTuple [PyNum (PInt (a div b)), PyNum (PInt (a mod b))]))"
| "int_arith rt Op_pow a b =
     (if 0 \<le> b then Inr (PyNum (PInt (a ^ nat b)))
      else seq (int_to_float rt a) (\<lambda>x. seq (int_to_float rt b) (\<lambda>y. float_arith rt Op_pow x y)))"
| "int_arith rt Op_lshift a b =
     (if b < 0 then Inl ValueError else Inr (PyNum (PInt (a * 2 ^ nat b))))"
| "int_arith rt Op_rshift a b =
     (if b < 0 then Inl ValueError else Inr (PyNum (PInt (a div 2 ^ nat b))))"

text \<open>
  The implementation of a binary operation by one numeric type, on operands in the order
  of the expression: it answers when both operands are numbers no higher in the tower
  than the type itself, and declines otherwise.
\<close>

datatype slotres = NotImpl | Done "error + pyobj"

fun arith :: "runtime \<Rightarrow> numkind \<Rightarrow> binop \<Rightarrow> pynum \<Rightarrow> pynum \<Rightarrow> error + pyobj" where
  "arith rt KInt op a b = int_arith rt op (as_int a) (as_int b)"
| "arith rt KFloat op a b =
     seq (as_float rt a) (\<lambda>x. seq (as_float rt b) (\<lambda>y. float_arith rt op x y))"
| "arith rt KComplex op a b =
     seq (as_complex rt a) (\<lambda>x. seq (as_complex rt b) (\<lambda>y. complex_arith rt op x y))"

fun slot :: "runtime \<Rightarrow> numkind \<Rightarrow> binop \<Rightarrow> pynum option \<Rightarrow> pynum option \<Rightarrow> slotres" where
  "slot rt k op (Some a) (Some b) =
     (if rank (kind_of a) \<le> rank k \<and> rank (kind_of b) \<le> rank k
      then Done (arith rt k op a b) else NotImpl)"
| "slot rt k op x y = NotImpl"

text \<open>
  The expression \<open>x op y\<close> on native values (None stands for the object None): the type of
  the left operand is asked first, then the type of the right operand when it is another
  one; TypeError when neither answers.
\<close>

fun try_slot :: "runtime \<Rightarrow> numkind \<Rightarrow> binop \<Rightarrow> pynum option \<Rightarrow> pynum option \<Rightarrow> slotres" where
  "try_slot rt k op x y = (if has_slot k op then slot rt k op x y else NotImpl)"

fun py_binary :: "runtime \<Rightarrow> binop \<Rightarrow> pynum option \<Rightarrow> pynum option \<Rightarrow> error + pyobj" where
  "py_binary rt op (Some a) (Some b) =
     (case try_slot rt (kind_of a) op (Some a) (Some b) of
        Done r \<Rightarrow> r
      | NotImpl \<Rightarrow>
          (if kind_of b = kind_of a then Inl TypeError
           else (case try_slot rt (kind_of b) op (Some a) (Some b) of
                   Done r \<Rightarrow> r
                 | NotImpl \<Rightarrow> Inl TypeError)))"
| "py_binary rt op x y = Inl TypeError"

text \<open>
  The special methods of the binary operators. A reflected method receives the operands
  of the expression in swapped order.
\<close>

datatype dunder =
    D_add | D_radd | D_divmod | D_rdivmod | D_floordiv | D_rfloordiv
  | D_mod | D_rmod | D_mul | D_rmul | D_pow | D_rpow | D_sub | D_rsub
  | D_truediv | D_rtruediv | D_lshift | D_rlshift | D_rshift | D_rrshift

fun op_of :: "dunder \<Rightarrow> binop" where
  "op_of D_add = Op_add" | "op_of D_radd = Op_add"
| "op_of D_divmod = Op_divmod" | "op_of D_rdivmod = Op_divmod"
| "op_of D_floordiv = Op_floordiv" | "op_of D_rfloordiv = Op_floordiv"
| "op_of D_mod = Op_mod" | "op_of D_rmod = Op_mod"
| "op_of D_mul = Op_mul" | "op_of D_rmul = Op_mul"
| "op_of D_pow = Op_pow" | "op_of D_rpow = Op_pow"
| "op_of D_sub = Op_sub" | "op_of D_rsub = Op_sub"
| "op_of D_truediv = Op_truediv" | "op_of D_rtruediv = Op_truediv"
| "op_of D_lshift = Op_lshift" | "op_of D_rlshift = Op_lshift"
| "op_of D_rshift = Op_rshift" | "op_of D_rrshift = Op_rshift"

fun reflected :: "dunder \<Rightarrow> bool" where
  "reflected D_radd = True" | "reflected D_rdivmod = True" | "reflected D_rfloordiv = True"
| "reflected D_rmod = True" | "reflected D_rmul = True" | "reflected D_rpow = True"
| "reflected D_rsub = True" | "reflected D_rtruediv = True" | "reflected D_rlshift = True"
| "reflected D_rrshift = True" | "reflected d = False"

text \<open>
  \<open>v.__d__\<close>: the attribute lookup of a special method on a native value. None has none of
  them, a number has those of its type.
\<close>

fun py_getattr :: "pynum option \<Rightarrow> dunder \<Rightarrow> error + pynum" where
  "py_getattr None d = Inl AttributeError"
| "py_getattr (Some a) d = (if has_slot (kind_of a) (op_of d) then Inr a else Inl AttributeError)"

text \<open>
  \<open>a.__d__(w)\<close> on a number \<open>a\<close> that has the method: the result of its type's
  implementation, or the object NotImplemented when the type declines.
\<close>

fun py_call :: "runtime \<Rightarrow> dunder \<Rightarrow> pynum \<Rightarrow> pynum option \<Rightarrow> error + pyobj" where
  "py_call rt d a w =
     (case (if reflected d then slot rt (kind_of a) (op_of d) w (Some a)
            else slot rt (kind_of a) (op_of d) (Some a) w) of
        NotImpl \<Rightarrow> Inr NotImplementedObj
      | Done r \<Rightarrow> r)"

section \<open>The trace and the catalogs\<close>

text \<open>
  Modelled from the spec: the trace returned by \<open>get_tracectx()\<close> is defined in
  thunder.core.trace, outside this module. It is the registry of the names in use:
  \<open>make_name()\<close> returns a name chosen by the trace's generator and registers it,
  \<open>add_name(name)\<close> registers a given name and fails when it is registered already.
\<close>

record tracectx =
  names :: "string list"
  name_gen :: "string list \<Rightarrow> string"

definition make_name :: "tracectx \<Rightarrow> string \<times> tracectx" where
  "make_name tr = (let n = name_gen tr (names tr) in (n, tr\<lparr>names := n # names tr\<rparr>))"

definition add_name :: "tracectx \<Rightarrow> string \<Rightarrow> error + tracectx" where
  "add_name tr n =
     (if n \<in> set (names tr) then Inl DuplicateNameError else Inr (tr\<lparr>names := n # names tr\<rparr>))"

text \<open>
  The functions of thunder.core.dtypes and the classes of thunder.core.devices that
  \<open>TensorProxy.__init__\<close> uses are parameters: membership in the two catalogs
  (\<open>isinstance(x, devices.Device)\<close>, \<open>isinstance(x, dtypes.dtype)\<close>), \<open>is_numbertype\<close>,
  \<open>numbertype_to_dtype\<close> and \<open>to_strong_dtype\<close>.
\<close>

record catalogs =
  is_device :: "token \<Rightarrow> bool"
  is_dtype :: "token \<Rightarrow> bool"
  is_numbertype :: "token \<Rightarrow> bool"
  numbertype_to_dtype :: "token \<Rightarrow> token"
  to_strong_dtype :: "token \<Rightarrow> token"

text \<open>
  Modelled from the spec: \<open>baseutils.check_valid_shape\<close> is outside this module; the spec
  requires every extent of a shape to be non-negative.
\<close>

definition check_valid_shape :: "int list \<Rightarrow> bool" where
  "check_valid_shape shape = list_all (\<lambda>l. 0 \<le> l) shape"

section \<open>Proxy\<close>

text \<open>
  \<open>Proxy.__init__(self, name=None)\<close>: a fresh name from the trace, or the given name
  registered in the trace. The result is the name stored in \<open>_name\<close> and the trace after
  the call.
\<close>

definition Proxy_init :: "tracectx \<Rightarrow> string option \<Rightarrow> error + string \<times> tracectx" where
  "Proxy_init tr nm =
     (case nm of
        None \<Rightarrow> Inr (make_name tr)
      | Some n \<Rightarrow> seq (add_name tr n) (\<lambda>tr'. Inr (n, tr')))"

text \<open>\<open>Proxy.replace_name\<close> on a direct instance of Proxy: \<open>self.__class__(name=name)\<close>.\<close>

definition Proxy_replace_name :: "tracectx \<Rightarrow> string option \<Rightarrow> error + proxy \<times> tracectx" where
  "Proxy_replace_name tr nm = seq (Proxy_init tr nm) (\<lambda>(n, tr'). Inr (PBase n, tr'))"

section \<open>NumberProxy and its three variants\<close>

text \<open>\<open>NumberProxy.__init__(self, name=None, value=None, *, python_type)\<close>.\<close>

definition NumberProxy_init ::
  "tracectx \<Rightarrow> number_class \<Rightarrow> pynum option \<Rightarrow> string option \<Rightarrow> pynum option \<Rightarrow> pytype
     \<Rightarrow> error + number_proxy \<times> tracectx" where
  "NumberProxy_init tr cls base nm v python_type =
     seq (Proxy_init tr nm) (\<lambda>(n, tr').
       Inr (\<lparr>np_class = cls, np_name = n, np_value = v,
             np_python_type = python_type, np_base = base\<rparr>, tr'))"

text \<open>
  The numeric part of a variant, built by \<open>__new__\<close> before \<open>__init__\<close> runs: \<open>int(value)\<close>,
  \<open>float(value)\<close> or \<open>complex(value)\<close>, with -9999, nan and nan+nan j for an unknown value.
  The conversion of the built-in type can fail.
\<close>

definition nan :: "64 word" where
  "nan = 0x7FF8000000000000"

fun int_new :: "runtime \<Rightarrow> pynum \<Rightarrow> error + pynum" where
  "int_new rt (PFloat f) = seq (float_to_int rt f) (\<lambda>i. Inr (PInt i))"
| "int_new rt (PComplex r i) = Inl TypeError"
| "int_new rt n = Inr (PInt (as_int n))"

definition float_new :: "runtime \<Rightarrow> pynum \<Rightarrow> error + pynum" where
  "float_new rt n = seq (as_float rt n) (\<lambda>f. Inr (PFloat f))"

definition complex_new :: "runtime \<Rightarrow> pynum \<Rightarrow> error + pynum" where
  "complex_new rt n = seq (as_complex rt n) (\<lambda>(r, i). Inr (PComplex r i))"

definition ComplexProxy_new :: "runtime \<Rightarrow> pynum option \<Rightarrow> error + pynum" where
  "ComplexProxy_new rt v =
     (case v of None \<Rightarrow> complex_new rt (PComplex nan nan) | Some n \<Rightarrow> complex_new rt n)"

definition IntegerProxy_new :: "runtime \<Rightarrow> pynum option \<Rightarrow> error + pynum" where
  "IntegerProxy_new rt v =
     (case v of None \<Rightarrow> int_new rt (PInt (- 9999)) | Some n \<Rightarrow> int_new rt n)"

definition FloatProxy_new :: "runtime \<Rightarrow> pynum option \<Rightarrow> error + pynum" where
  "FloatProxy_new rt v =
     (case v of None \<Rightarrow> float_new rt (PFloat nan) | Some n \<Rightarrow> float_new rt n)"

text \<open>The constructor calls \<open>ComplexProxy(name=.., value=..)\<close> and its two siblings.\<close>

definition ComplexProxy_init ::
  "runtime \<Rightarrow> tracectx \<Rightarrow> string option \<Rightarrow> pynum option \<Rightarrow> error + number_proxy \<times> tracectx" where
  "ComplexProxy_init rt tr nm v =
     seq (ComplexProxy_new rt v) (\<lambda>base.
       NumberProxy_init tr ComplexProxy (Some base) nm v Complex_t)"

fun is_bool :: "pynum option \<Rightarrow> bool" where
  "is_bool (Some (PBool b)) = True"
| "is_bool v = False"

definition IntegerProxy_init ::
  "runtime \<Rightarrow> tracectx \<Rightarrow> string option \<Rightarrow> pynum option \<Rightarrow> error + number_proxy \<times> tracectx" where
  "IntegerProxy_init rt tr nm v =
     seq (IntegerProxy_new rt v) (\<lambda>base.
       let python_type = (if is_bool v then Bool_t else Int_t)
       in NumberProxy_init tr IntegerProxy (Some base) nm v python_type)"

definition FloatProxy_init ::
  "runtime \<Rightarrow> tracectx \<Rightarrow> string option \<Rightarrow> pynum option \<Rightarrow> error + number_proxy \<times> tracectx" where
  "FloatProxy_init rt tr nm v =
     seq (FloatProxy_new rt v) (\<lambda>base.
       NumberProxy_init tr FloatProxy (Some base) nm v Float_t)"

text \<open>
  \<open>replace_name\<close> as each class defines it. The method of NumberProxy calls
  \<open>self.__class__\<close> with a \<open>python_type\<close> keyword, which only the constructor of NumberProxy
  itself accepts; the three variants override it.
\<close>

definition NumberProxy_replace_name ::
  "tracectx \<Rightarrow> number_proxy \<Rightarrow> string option \<Rightarrow> error + number_proxy \<times> tracectx" where
  "NumberProxy_replace_name tr self nm =
     (if np_class self = NumberProxy
      then NumberProxy_init tr NumberProxy None nm (np_value self) (np_python_type self)
      else Inl TypeError)"

definition ComplexProxy_replace_name ::
  "runtime \<Rightarrow> tracectx \<Rightarrow> number_proxy \<Rightarrow> string option \<Rightarrow> error + number_proxy \<times> tracectx" where
  "ComplexProxy_replace_name rt tr self nm = ComplexProxy_init rt tr nm (np_value self)"

definition IntegerProxy_replace_name ::
  "runtime \<Rightarrow> tracectx \<Rightarrow> number_proxy \<Rightarrow> string option \<Rightarrow> error + number_proxy \<times> tracectx" where
  "IntegerProxy_replace_name rt tr self nm = IntegerProxy_init rt tr nm (np_value self)"

definition FloatProxy_replace_name ::
  "runtime \<Rightarrow> tracectx \<Rightarrow> number_proxy \<Rightarrow> string option \<Rightarrow> error + number_proxy \<times> tracectx" where
  "FloatProxy_replace_name rt tr self nm = FloatProxy_init rt tr nm (np_value self)"

section \<open>TensorProxy\<close>

text \<open>
  \<open>TensorProxy.__init__(self, name=None, *, like=None, shape=None, device=None,
  dtype=None)\<close>. The derived attributes are computed before the validation, so a missing
  shape fails in \<open>reduce\<close> with TypeError; a missing device or dtype fails the type check
  (None is not a number type, so a missing dtype reaches the check unchanged). A shape is
  its sequence of extents, whether given as a tuple or as a list.
\<close>

definition TensorProxy_init ::
  "catalogs \<Rightarrow> tracectx \<Rightarrow> string option \<Rightarrow> tensor_proxy option \<Rightarrow> int list option
     \<Rightarrow> token option \<Rightarrow> token option \<Rightarrow> error + tensor_proxy \<times> tracectx" where
  "TensorProxy_init cat tr nm like shape device dtype =
     seq (Proxy_init tr nm) (\<lambda>(n, tr').
       let shape0 = (case like of None \<Rightarrow> None | Some l \<Rightarrow> Some (tp_shape l));
           device0 = (case like of None \<Rightarrow> None | Some l \<Rightarrow> Some (tp_device l));
           dtype0 = (case like of None \<Rightarrow> None | Some l \<Rightarrow> Some (tp_true_dtype l));
           shape1 = (if shape \<noteq> None then shape else shape0);
           device1 = (if device \<noteq> None then device else device0);
           dtype1 = (if dtype \<noteq> None then dtype else dtype0);
           dtype2 = (case dtype1 of
                       None \<Rightarrow> None
                     | Some d \<Rightarrow> Some (if is_numbertype cat d then numbertype_to_dtype cat d else d))
       in (case shape1 of
             None \<Rightarrow> Inl TypeError
           | Some sh \<Rightarrow>
               let numel = foldl (*) 1 sh;
                   ndim = length sh
               in if \<not> check_valid_shape sh then Inl InvalidShapeError
                  else (case device1 of
                          None \<Rightarrow> Inl InvalidDeviceError
                        | Some dev \<Rightarrow>
                            if \<not> is_device cat dev then Inl InvalidDeviceError
                            else (case dtype2 of
                                    None \<Rightarrow> Inl InvalidDTypeError
                                  | Some dt \<Rightarrow>
                                      if \<not> is_dtype cat dt then Inl InvalidDTypeError
                                      else Inr (\<lparr>tp_name = n, tp_shape = sh, tp_device = dev,
                                                 tp_dtype = to_strong_dtype cat dt,
                                                 tp_true_dtype = dt,
                                                 tp_numel = numel, tp_ndim = ndim\<rparr>, tr')))))"

text \<open>\<open>TensorProxy.replace_name\<close>: \<open>TensorProxy(name, like=self)\<close>.\<close>

definition TensorProxy_replace_name ::
  "catalogs \<Rightarrow> tracectx \<Rightarrow> tensor_proxy \<Rightarrow> string option \<Rightarrow> error + tensor_proxy \<times> tracectx" where
  "TensorProxy_replace_name cat tr self nm = TensorProxy_init cat tr nm (Some self) None None None"

text \<open>The call \<open>p.replace_name(name)\<close>, resolved on the class of \<open>p\<close>.\<close>

fun replace_name ::
  "runtime \<Rightarrow> catalogs \<Rightarrow> tracectx \<Rightarrow> proxy \<Rightarrow> string option \<Rightarrow> error + proxy \<times> tracectx" where
  "replace_name rt cat tr (PBase n) nm = Proxy_replace_name tr nm"
| "replace_name rt cat tr (PNum p) nm =
     seq (case np_class p of
            NumberProxy \<Rightarrow> NumberProxy_replace_name tr p nm
          | ComplexProxy \<Rightarrow> ComplexProxy_replace_name rt tr p nm
          | IntegerProxy \<Rightarrow> IntegerProxy_replace_name rt tr p nm
          | FloatProxy \<Rightarrow> FloatProxy_replace_name rt tr p nm)
         (\<lambda>(q, tr'). Inr (PNum q, tr'))"
| "replace_name rt cat tr (PTen t) nm =
     seq (TensorProxy_replace_name cat tr t nm) (\<lambda>(q, tr'). Inr (PTen q, tr'))"

section \<open>Operators of the number proxies\<close>

text \<open>
  The language context returned by \<open>get_langctx()\<close> is None or an object whose methods are
  called by name with a list of arguments.
\<close>

type_synonym langctx = "string \<Rightarrow> pyobj list \<Rightarrow> error + pyobj"

text \<open>
  \<open>pyval(x)\<close>: the type check of baseutils accepts a NumberProxy or a Number; a proxy
  gives its \<open>value\<close> (None when unknown), a number gives itself.
\<close>

fun pyval :: "pyobj \<Rightarrow> error + pynum option" where
  "pyval (Prx (PNum p)) = Inr (np_value p)"
| "pyval (PyNum n) = Inr (Some n)"
| "pyval x = Inl CheckTypeError"

text \<open>
  The two forms of the branch without a context. \<open>pyval(x) op pyval(y)\<close> evaluates
  Python's operator on the two values. \<open>pyval(self).__d__(pyval(other))\<close> looks the method
  up on the value of \<open>self\<close> first, then evaluates \<open>pyval(other)\<close>, then calls.
\<close>

definition native_operator :: "runtime \<Rightarrow> binop \<Rightarrow> pyobj \<Rightarrow> pyobj \<Rightarrow> error + pyobj" where
  "native_operator rt op x y =
     seq (pyval x) (\<lambda>v. seq (pyval y) (\<lambda>w. py_binary rt op v w))"

definition native_method :: "runtime \<Rightarrow> dunder \<Rightarrow> number_proxy \<Rightarrow> pyobj \<Rightarrow> error + pyobj" where
  "native_method rt d self other =
     seq (py_getattr (np_value self) d) (\<lambda>a. seq (pyval other) (\<lambda>w. py_call rt d a w))"

text \<open>
  The twenty binary and shift operators. ComplexProxy, IntegerProxy and FloatProxy define
  them with the same bodies, transcribed here one equation per method; \<open>lc\<close> is the result
  of \<open>get_langctx()\<close> and \<open>self\<close> an instance of one of the three classes.
\<close>

fun NumberProxy_binary ::
  "runtime \<Rightarrow> langctx option \<Rightarrow> dunder \<Rightarrow> number_proxy \<Rightarrow> pyobj \<Rightarrow> error + pyobj" where
  "NumberProxy_binary rt lc D_add self other =
     (case lc of None \<Rightarrow> native_operator rt Op_add (Prx (PNum self)) other
      | Some langctx \<Rightarrow> langctx ''add'' [Prx (PNum self), other])"
| "NumberProxy_binary rt lc D_radd self other =
     (case lc of None \<Rightarrow> native_operator rt Op_add other (Prx (PNum self))
      | Some langctx \<Rightarrow> langctx ''add'' [other, Prx (PNum self)])"
| "NumberProxy_binary rt lc D_divmod self other =
     (case lc of None \<Rightarrow> native_method rt D_divmod self other
      | Some langctx \<Rightarrow> langctx ''divmod'' [Prx (PNum self), other])"
| "NumberProxy_binary rt lc D_rdivmod self other =
     (case lc of None \<Rightarrow> native_method rt D_rdivmod self other
      | Some langctx \<Rightarrow> langctx ''divmod'' [other, Prx (PNum self)])"
| "NumberProxy_binary rt lc D_floordiv self other =
     (case lc of None \<Rightarrow> native_method rt D_floordiv self other
      | Some langctx \<Rightarrow> langctx ''floor_divide'' [Prx (PNum self), other])"
| "NumberProxy_binary rt lc D_rfloordiv self other =
     (case lc of None \<Rightarrow> native_method rt D_rfloordiv self other
      | Some langctx \<Rightarrow> langctx ''floor_divide'' [other, Prx (PNum self)])"
| "NumberProxy_binary rt lc D_mod self other =
     (case lc of None \<Rightarrow> native_method rt D_mod self other
      | Some langctx \<Rightarrow> langctx ''mod'' [Prx (PNum self), other])"
| "NumberProxy_binary rt lc D_rmod self other =
     (case lc of None \<Rightarrow> native_method rt D_rmod self other
      | Some langctx \<Rightarrow> langctx ''mod'' [other, Prx (PNum self)])"
| "NumberProxy_binary rt lc D_mul self other =
     (case lc of None \<Rightarrow> native_operator rt Op_mul (Prx (PNum self)) other
      | Some langctx \<Rightarrow> langctx ''mul'' [Prx (PNum self), other])"
| "NumberProxy_binary rt lc D_rmul self other =
     (case lc of None \<Rightarrow> native_operator rt Op_mul other (Prx (PNum self))
      | Some langctx \<Rightarrow> langctx ''mul'' [other, Prx (PNum self)])"
| "NumberProxy_binary rt lc D_pow self other =
     (case lc of None \<Rightarrow> native_method rt D_pow self other
      | Some langctx \<Rightarrow> langctx ''pow'' [Prx (PNum self), other])"
| "NumberProxy_binary rt lc D_rpow self other =
     (case lc of None \<Rightarrow> native_method rt D_rpow self other
      | Some langctx \<Rightarrow> langctx ''pow'' [other, Prx (PNum self)])"
| "NumberProxy_binary rt lc D_sub self other =
     (case lc of None \<Rightarrow> native_method rt D_sub self other
      | Some langctx \<Rightarrow> langctx ''sub'' [Prx (PNum self), other])"
| "NumberProxy_binary rt lc D_rsub self other =
     (case lc of None \<Rightarrow> native_method rt D_rsub self other
      | Some langctx \<Rightarrow> langctx ''sub'' [other, Prx (PNum self)])"
| "NumberProxy_binary rt lc D_truediv self other =
     (case lc of None \<Rightarrow> native_method rt D_truediv self other
      | Some langctx \<Rightarrow> langctx ''true_divide'' [Prx (PNum self), other])"
| "NumberProxy_binary rt lc D_rtruediv self other =
     (case lc of None \<Rightarrow> native_method rt D_rtruediv self other
      | Some langctx \<Rightarrow> langctx ''true_divide'' [other, Prx (PNum self)])"
| "NumberProxy_binary rt lc D_lshift self other =
     (case lc of None \<Rightarrow> native_method rt D_lshift self other
      | Some langctx \<Rightarrow> langctx ''lshift'' [Prx (PNum self), other])"
| "NumberProxy_binary rt lc D_rlshift self other =
     (case lc of None \<Rightarrow> native_method rt D_rlshift self other
      | Some langctx \<Rightarrow> langctx ''lshift'' [other, Prx (PNum self)])"
| "NumberProxy_binary rt lc D_rshift self other =
     (case lc of None \<Rightarrow> native_method rt D_rshift self other
      | Some langctx \<Rightarrow> langctx ''rshift'' [Prx (PNum self), other])"
| "NumberProxy_binary rt lc D_rrshift self other =
     (case lc of None \<Rightarrow> native_method rt D_rrshift self other
      | Some langctx \<Rightarrow> langctx ''rshift'' [other, Prx (PNum self)])"

text \<open>
  The dispatch rule in the words of the spec: the context method named after the
  operator, the operands of a reflected operator in swapped order, and without a context
  the native operation of the expression on the concrete values.
\<close>

fun ctx_method :: "binop \<Rightarrow> string" where
  "ctx_method Op_add = ''add''"
| "ctx_method Op_sub = ''sub''"
| "ctx_method Op_mul = ''mul''"
| "ctx_method Op_truediv = ''true_divide''"
| "ctx_method Op_floordiv = ''floor_divide''"
| "ctx_method Op_mod = ''mod''"
| "ctx_method Op_divmod = ''divmod''"
| "ctx_method Op_pow = ''pow''"
| "ctx_method Op_lshift = ''lshift''"
| "ctx_method Op_rshift = ''rshift''"

definition operands :: "dunder \<Rightarrow> 'a \<Rightarrow> 'a \<Rightarrow> 'a list" where
  "operands d self other = (if reflected d then [other, self] else [self, other])"

definition spec_native :: "runtime \<Rightarrow> dunder \<Rightarrow> pynum \<Rightarrow> pynum \<Rightarrow> error + pyobj" where
  "spec_native rt d v w =
     (if reflected d then py_binary rt (op_of d) (Some w) (Some v)
      else py_binary rt (op_of d) (Some v) (Some w))"



section \<open>Unary plus and the conversions\<close>

text \<open>
  The names bound at module level of proxies.py (imports, classes, functions and the
  class map). A name that a function body reads without assigning it is looked up here;
  a name that is not bound raises NameError.
\<close>

definition module_globals :: "string list" where
  "module_globals =
     [''Number'', ''Type'', ''Optional'', ''Any'', ''Sequence'', ''Tuple'', ''List'', ''Union'',
      ''reduce'', ''partial'', ''operator'', ''VariableInterface'', ''get_tracectx'',
      ''ProxyInterface'', ''NumberProxyInterface'', ''TensorProxyInterface'', ''baseutils'',
      ''langctx_for'', ''get_langctx'', ''devices'', ''dtypes'',
      ''Variable'', ''variableify'', ''unvariableify'', ''Proxy'', ''NumberProxy'', ''pyval'',
      ''ComplexProxy'', ''IntegerProxy'', ''FloatProxy'', ''TensorProxy'',
      ''_cls_to_number_proxy_map'', ''numberproxy'', ''is_proxyable'', ''proxy'']"

definition load_global :: "string \<Rightarrow> error + pyobj" where
  "load_global n = (if n \<in> set module_globals then Inr (PyGlobal n) else Inl NameError)"

text \<open>\<open>v.__pos__()\<close> on a native value: None has no such method, \<open>+True\<close> is the int 1.\<close>

fun py_pos :: "pynum option \<Rightarrow> error + pyobj" where
  "py_pos None = Inl AttributeError"
| "py_pos (Some (PBool b)) = Inr (PyNum (PInt (as_int (PBool b))))"
| "py_pos (Some n) = Inr (PyNum n)"

text \<open>
  \<open>__pos__\<close> of ComplexProxy, IntegerProxy and FloatProxy (one body in the three classes):
  the body reads the name \<open>langctx\<close> without assigning it, so the name is a global of the
  module. \<open>lc\<close>, the active context, is not consulted.
\<close>

definition NumberProxy_pos :: "langctx option \<Rightarrow> number_proxy \<Rightarrow> error + pyobj" where
  "NumberProxy_pos lc self =
     seq (load_global ''langctx'') (\<lambda>langctx.
       if langctx = NoneObj then py_pos (np_value self)
       else Inr (Prx (PNum self)))"

text \<open>\<open>TensorProxy.__pos__\<close>: \<open>return self\<close>.\<close>

definition TensorProxy_pos :: "langctx option \<Rightarrow> tensor_proxy \<Rightarrow> error + pyobj" where
  "TensorProxy_pos lc self = Inr (Prx (PTen self))"

text \<open>
  The statement \<open>raise x\<close>: an exception instance is raised, any other object makes the
  statement itself fail with TypeError.
\<close>

fun py_raise :: "pyobj \<Rightarrow> error + 'a" where
  "py_raise (PyExc e) = Inl e"
| "py_raise x = Inl TypeError"

text \<open>The conversion methods \<open>__complex__\<close>, \<open>__float__\<close>, \<open>__int__\<close> of the three classes.\<close>

definition ComplexProxy_complex :: "number_proxy \<Rightarrow> error + pyobj" where
  "ComplexProxy_complex self = py_raise (Prx (PNum self))"

definition ComplexProxy_float :: "number_proxy \<Rightarrow> error + pyobj" where
  "ComplexProxy_float self = py_raise NotImplementedObj"

definition ComplexProxy_int :: "number_proxy \<Rightarrow> error + pyobj" where
  "ComplexProxy_int self = py_raise NotImplementedObj"

definition IntegerProxy_complex :: "number_proxy \<Rightarrow> error + pyobj" where
  "IntegerProxy_complex self = py_raise NotImplementedObj"

definition IntegerProxy_float :: "number_proxy \<Rightarrow> error + pyobj" where
  "IntegerProxy_float self = py_raise NotImplementedObj"

definition IntegerProxy_int :: "number_proxy \<Rightarrow> error + pyobj" where
  "IntegerProxy_int self = Inr (Prx (PNum self))"

definition FloatProxy_complex :: "number_proxy \<Rightarrow> error + pyobj" where
  "FloatProxy_complex self = py_raise NotImplementedObj"

definition FloatProxy_float :: "number_proxy \<Rightarrow> error + pyobj" where
  "FloatProxy_float self = Inr (Prx (PNum self))"

definition FloatProxy_int :: "number_proxy \<Rightarrow> error + pyobj" where
  "FloatProxy_int self = py_raise NotImplementedObj"

text \<open>
  The call \<open>p.__complex__()\<close>, \<open>p.__float__()\<close> or \<open>p.__int__()\<close>, resolved on the class of
  \<open>p\<close>; the class NumberProxy itself defines none of the three.
\<close>

datatype conversion = To_complex | To_float | To_int

fun convert :: "conversion \<Rightarrow> number_proxy \<Rightarrow> error + pyobj" where
  "convert To_complex p =
     (case np_class p of
        ComplexProxy \<Rightarrow> ComplexProxy_complex p
      | IntegerProxy \<Rightarrow> IntegerProxy_complex p
      | FloatProxy \<Rightarrow> FloatProxy_complex p
      | NumberProxy \<Rightarrow> Inl AttributeError)"
| "convert To_float p =
     (case np_class p of
        ComplexProxy \<Rightarrow> ComplexProxy_float p
      | IntegerProxy \<Rightarrow> IntegerProxy_float p
      | FloatProxy \<Rightarrow> FloatProxy_float p
      | NumberProxy \<Rightarrow> Inl AttributeError)"
| "convert To_int p =
     (case np_class p of
        ComplexProxy \<Rightarrow> ComplexProxy_int p
      | IntegerProxy \<Rightarrow> IntegerProxy_int p
      | FloatProxy \<Rightarrow> FloatProxy_int p
      | NumberProxy \<Rightarrow> Inl AttributeError)"

text \<open>The conversion that matches the kind of each variant.\<close>

fun own_conversion :: "number_class \<Rightarrow> conversion option" where
  "own_conversion ComplexProxy = Some To_complex"
| "own_conversion IntegerProxy = Some To_int"
| "own_conversion FloatProxy = Some To_float"
| "own_conversion NumberProxy = None"

section \<open>Hashing\<close>

text \<open>
  The classes of the module with their bases, and what decides \<open>hash(x)\<close>: Python takes
  \<open>__hash__\<close> from the first class of the method resolution order whose body settles it.
  A body that defines \<open>__hash__\<close> settles it with that method; a body that defines
  \<open>__eq__\<close> without \<open>__hash__\<close> settles it as None, which makes the instances unhashable.
\<close>

datatype cls =
    C_object | C_int | C_float | C_complex
  | C_VariableInterface | C_ProxyInterface | C_NumberProxyInterface | C_TensorProxyInterface
  | C_Variable | C_Proxy | C_NumberProxy
  | C_ComplexProxy | C_IntegerProxy | C_FloatProxy | C_TensorProxy

text \<open>
  Bodies that define \<open>__eq__\<close> and \<open>__hash__\<close>. In the three number variants the definition
  of \<open>__eq__\<close> is commented out. Modelled from the spec: the four interface classes are
  declared in thunder.core.trace and thunder.core.baseutils, outside this module; they
  state the contract (name, type string, renaming) and define neither method.
\<close>

fun defines_eq :: "cls \<Rightarrow> bool" where
  "defines_eq C_Variable = True"
| "defines_eq C_TensorProxy = True"
| "defines_eq C_object = True"
| "defines_eq C_int = True"
| "defines_eq C_float = True"
| "defines_eq C_complex = True"
| "defines_eq c = False"

fun defines_hash :: "cls \<Rightarrow> bool" where
  "defines_hash C_Variable = True"
| "defines_hash C_NumberProxy = True"
| "defines_hash C_object = True"
| "defines_hash C_int = True"
| "defines_hash C_float = True"
| "defines_hash C_complex = True"
| "defines_hash c = False"

text \<open>
  The method resolution order of each class, from the \<open>class\<close> statements:
  \<open>Proxy(VariableInterface, ProxyInterface)\<close>, \<open>NumberProxy(Proxy, NumberProxyInterface)\<close>,
  \<open>ComplexProxy(NumberProxy, complex)\<close>, \<open>IntegerProxy(NumberProxy, int)\<close>,
  \<open>FloatProxy(NumberProxy, float)\<close>, \<open>TensorProxy(Proxy, TensorProxyInterface)\<close>.
\<close>

fun mro :: "cls \<Rightarrow> cls list" where
  "mro C_Variable = [C_Variable, C_object]"
| "mro C_Proxy = [C_Proxy, C_VariableInterface, C_ProxyInterface, C_object]"
| "mro C_NumberProxy =
     [C_NumberProxy, C_Proxy, C_VariableInterface, C_ProxyInterface, C_NumberProxyInterface,
      C_object]"
| "mro C_ComplexProxy =
     [C_ComplexProxy, C_NumberProxy, C_Proxy, C_VariableInterface, C_ProxyInterface,
      C_NumberProxyInterface, C_complex, C_object]"
| "mro C_IntegerProxy =
     [C_IntegerProxy, C_NumberProxy, C_Proxy, C_VariableInterface, C_ProxyInterface,
      C_NumberProxyInterface, C_int, C_object]"
| "mro C_FloatProxy =
     [C_FloatProxy, C_NumberProxy, C_Proxy, C_VariableInterface, C_ProxyInterface,
      C_NumberProxyInterface, C_float, C_object]"
| "mro C_TensorProxy =
     [C_TensorProxy, C_Proxy, C_VariableInterface, C_ProxyInterface, C_TensorProxyInterface,
      C_object]"
| "mro c = [c, C_object]"

datatype hash_slot = Hash_from cls | Hash_is_None

fun resolve_hash :: "cls list \<Rightarrow> hash_slot" where
  "resolve_hash [] = Hash_from C_object"
| "resolve_hash (c # cs) =
     (if defines_hash c then Hash_from c
      else if defines_eq c then Hash_is_None
      else resolve_hash cs)"

fun class_of :: "proxy \<Rightarrow> cls" where
  "class_of (PBase n) = C_Proxy"
| "class_of (PTen t) = C_TensorProxy"
| "class_of (PNum p) =
     (case np_class p of
        NumberProxy \<Rightarrow> C_NumberProxy
      | ComplexProxy \<Rightarrow> C_ComplexProxy
      | IntegerProxy \<Rightarrow> C_IntegerProxy
      | FloatProxy \<Rightarrow> C_FloatProxy)"

text \<open>The built-in \<open>hash\<close> on a number or None.\<close>

fun hash_value :: "runtime \<Rightarrow> pynum option \<Rightarrow> int" where
  "hash_value rt None = none_hash rt"
| "hash_value rt (Some n) = num_hash rt n"

text \<open>The attribute \<open>self.value\<close> and the numeric part of a proxy.\<close>

fun value_attr :: "proxy \<Rightarrow> error + pynum option" where
  "value_attr (PNum p) = Inr (np_value p)"
| "value_attr p = Inl AttributeError"

fun numeric_base :: "proxy \<Rightarrow> error + pynum option" where
  "numeric_base (PNum p) = Inr (np_base p)"
| "numeric_base p = Inl TypeError"

text \<open>\<open>NumberProxy.__hash__\<close>: \<open>hash(self.value)\<close>.\<close>

definition NumberProxy_hash :: "runtime \<Rightarrow> proxy \<Rightarrow> error + int" where
  "NumberProxy_hash rt self = seq (value_attr self) (\<lambda>v. Inr (hash_value rt v))"

text \<open>\<open>Variable.__hash__\<close>: \<open>hash(self.proxy.name)\<close>.\<close>

definition Variable_hash :: "runtime \<Rightarrow> proxy \<Rightarrow> int" where
  "Variable_hash rt p = str_hash rt (name p)"

text \<open>
  \<open>hash(p)\<close> on a proxy: the method found along the resolution order of its class is
  called; TypeError when the class is unhashable.
\<close>

definition hash_proxy :: "runtime \<Rightarrow> proxy \<Rightarrow> error + int" where
  "hash_proxy rt p =
     (case resolve_hash (mro (class_of p)) of
        Hash_is_None \<Rightarrow> Inl TypeError
      | Hash_from c \<Rightarrow>
          (if c = C_NumberProxy then NumberProxy_hash rt p
           else if c = C_object then Inr (object_hash rt p)
           else seq (numeric_base p) (\<lambda>b. Inr (hash_value rt b))))"

text \<open>\<open>hash(x)\<close> on the objects that the module hashes or that are used as keys.\<close>

fun py_hash :: "runtime \<Rightarrow> pyobj \<Rightarrow> error + int" where
  "py_hash rt NoneObj = Inr (none_hash rt)"
| "py_hash rt (PyNum n) = Inr (num_hash rt n)"
| "py_hash rt (PyStr s) = Inr (str_hash rt s)"
| "py_hash rt (Prx p) = hash_proxy rt p"
| "py_hash rt (Variable p) =
     (case resolve_hash (mro C_Variable) of
        Hash_is_None \<Rightarrow> Inl TypeError
      | Hash_from c \<Rightarrow> Inr (Variable_hash rt p))"
| "py_hash rt x = Inl TypeError"

section \<open>numberproxy\<close>

text \<open>The dictionary \<open>_cls_to_number_proxy_map\<close>, with the three keys the source gives it.\<close>

definition cls_to_number_proxy_map :: "pytype \<rightharpoonup> number_class" where
  "cls_to_number_proxy_map =
     [Float_t \<mapsto> FloatProxy, Int_t \<mapsto> IntegerProxy, Bool_t \<mapsto> IntegerProxy]"

text \<open>
  The call \<open>pcls(value=value)\<close> on a class taken from the dictionary. The constructor of
  NumberProxy itself requires \<open>python_type\<close>.
\<close>

fun construct ::
  "runtime \<Rightarrow> tracectx \<Rightarrow> number_class \<Rightarrow> pynum option \<Rightarrow> error + number_proxy \<times> tracectx" where
  "construct rt tr ComplexProxy v = ComplexProxy_init rt tr None v"
| "construct rt tr IntegerProxy v = IntegerProxy_init rt tr None v"
| "construct rt tr FloatProxy v = FloatProxy_init rt tr None v"
| "construct rt tr NumberProxy v = Inl TypeError"

definition numberproxy ::
  "runtime \<Rightarrow> tracectx \<Rightarrow> pytype \<Rightarrow> pynum option \<Rightarrow> error + number_proxy \<times> tracectx" where
  "numberproxy rt tr cls v =
     (case cls_to_number_proxy_map cls of
        None \<Rightarrow> Inl KeyError
      | Some pcls \<Rightarrow> construct rt tr pcls v)"

section \<open>The operator expression\<close>

text \<open>
  An operand of an arithmetic expression: a native number, or an instance of
  ComplexProxy, IntegerProxy or FloatProxy.
\<close>

datatype operand = Plain pynum | Proxied number_proxy

fun obj :: "operand \<Rightarrow> pyobj" where
  "obj (Plain n) = PyNum n"
| "obj (Proxied p) = Prx (PNum p)"

text \<open>
  A method of a built-in numeric type that receives a proxy works on the numeric part of
  the object, which is an int, a float or a complex.
\<close>

fun builtin_view :: "operand \<Rightarrow> pynum option" where
  "builtin_view (Plain n) = Some n"
| "builtin_view (Proxied p) = np_base p"

text \<open>
  Whether the class of a proxy is a proper subclass of the type of a native number: the
  variants derive from int, float and complex, none of them from bool.
\<close>

fun subclass_of_type :: "number_proxy \<Rightarrow> pynum \<Rightarrow> bool" where
  "subclass_of_type p (PBool b) = False"
| "subclass_of_type p (PInt i) = (np_class p = IntegerProxy)"
| "subclass_of_type p (PFloat f) = (np_class p = FloatProxy)"
| "subclass_of_type p (PComplex r i) = (np_class p = ComplexProxy)"

fun direct :: "binop \<Rightarrow> dunder" where
  "direct Op_add = D_add"
| "direct Op_sub = D_sub"
| "direct Op_mul = D_mul"
| "direct Op_truediv = D_truediv"
| "direct Op_floordiv = D_floordiv"
| "direct Op_mod = D_mod"
| "direct Op_divmod = D_divmod"
| "direct Op_pow = D_pow"
| "direct Op_lshift = D_lshift"
| "direct Op_rshift = D_rshift"

fun swapped :: "binop \<Rightarrow> dunder" where
  "swapped Op_add = D_radd"
| "swapped Op_sub = D_rsub"
| "swapped Op_mul = D_rmul"
| "swapped Op_truediv = D_rtruediv"
| "swapped Op_floordiv = D_rfloordiv"
| "swapped Op_mod = D_rmod"
| "swapped Op_divmod = D_rdivmod"
| "swapped Op_pow = D_rpow"
| "swapped Op_lshift = D_rlshift"
| "swapped Op_rshift = D_rrshift"

text \<open>
  The last step of the protocol: a method that returned NotImplemented, with no further
  method to ask, makes the expression raise TypeError.
\<close>

definition final :: "error + pyobj \<Rightarrow> error + pyobj" where
  "final r = (if r = Inr NotImplementedObj then Inl TypeError else r)"

definition final_slot :: "slotres \<Rightarrow> error + pyobj" where
  "final_slot s = (case s of NotImpl \<Rightarrow> Inl TypeError | Done r \<Rightarrow> r)"

text \<open>
  Python's evaluation of \<open>x op y\<close> when a number proxy takes part. The method of the left
  operand is called first, unless the class of the right operand is a proper subclass of
  the type of the left one, in which case its reflected method comes first. A method
  that returns NotImplemented passes the turn to the other operand; an exception ends the
  evaluation. Two proxies of one class have only the method of the left operand.
\<close>

fun binary_expression ::
  "runtime \<Rightarrow> langctx option \<Rightarrow> binop \<Rightarrow> operand \<Rightarrow> operand \<Rightarrow> error + pyobj" where
  "binary_expression rt lc op (Plain a) (Plain b) = py_binary rt op (Some a) (Some b)"
| "binary_expression rt lc op (Proxied p) (Plain b) =
     (let r = NumberProxy_binary rt lc (direct op) p (PyNum b)
      in if r \<noteq> Inr NotImplementedObj then r
         else final_slot (try_slot rt (kind_of b) op (np_base p) (Some b)))"
| "binary_expression rt lc op (Proxied p) (Proxied q) =
     (let r = NumberProxy_binary rt lc (direct op) p (Prx (PNum q))
      in if r \<noteq> Inr NotImplementedObj \<or> np_class q = np_class p then final r
         else final (NumberProxy_binary rt lc (swapped op) q (Prx (PNum p))))"
| "binary_expression rt lc op (Plain a) (Proxied q) =
     (if subclass_of_type q a
      then (let r = NumberProxy_binary rt lc (swapped op) q (PyNum a)
            in if r \<noteq> Inr NotImplementedObj then r
               else final_slot (try_slot rt (kind_of a) op (Some a) (np_base q)))
      else (case try_slot rt (kind_of a) op (Some a) (np_base q) of
              Done r \<Rightarrow> r
            | NotImpl \<Rightarrow> final (NumberProxy_binary rt lc (swapped op) q (PyNum a))))"

section \<open>Constructed proxies and renaming\<close>

text \<open>
  The proxies that the constructors of the module return. Attributes are only written
  by \<open>__init__\<close>, so these are the proxies a program can hold.
\<close>

inductive made :: "runtime \<Rightarrow> catalogs \<Rightarrow> proxy \<Rightarrow> bool" where
  made_Proxy:
    "Proxy_init tr nm = Inr (n, tr') \<Longrightarrow> made rt cat (PBase n)"
| made_NumberProxy:
    "NumberProxy_init tr NumberProxy None nm v ty = Inr (p, tr') \<Longrightarrow> made rt cat (PNum p)"
| made_ComplexProxy:
    "ComplexProxy_init rt tr nm v = Inr (p, tr') \<Longrightarrow> made rt cat (PNum p)"
| made_IntegerProxy:
    "IntegerProxy_init rt tr nm v = Inr (p, tr') \<Longrightarrow> made rt cat (PNum p)"
| made_FloatProxy:
    "FloatProxy_init rt tr nm v = Inr (p, tr') \<Longrightarrow> made rt cat (PNum p)"
| made_TensorProxy:
    "TensorProxy_init cat tr nm like shape device dtype = Inr (t, tr') \<Longrightarrow> made rt cat (PTen t)"

text \<open>The same proxy under another name: every attribute but the name is kept.\<close>

fun rename :: "proxy \<Rightarrow> string \<Rightarrow> proxy" where
  "rename (PBase m) n = PBase n"
| "rename (PNum p) n = PNum (p\<lparr>np_name := n\<rparr>)"
| "rename (PTen t) n = PTen (t\<lparr>tp_name := n\<rparr>)"

section \<open>Instances used in the examples\<close>

text \<open>
  A runtime for evaluating examples: exact integer arithmetic needs nothing from it; its
  conversions between int and float and its floating-point operations always report
  OverflowError, and its hash functions are fixed arbitrary ones.
\<close>

definition example_runtime :: runtime where
  "example_runtime =
     \<lparr>int_to_float = (\<lambda>i. Inl OverflowError),
      float_to_int = (\<lambda>f. Inl OverflowError),
      int_true_divide = (\<lambda>a b. Inl OverflowError),
      float_arith = (\<lambda>op x y. Inl OverflowError),
      complex_arith = (\<lambda>op x y. Inl OverflowError),
      num_hash = as_int,
      none_hash = 0,
      str_hash = (\<lambda>s. int (length s)),
      object_hash = (\<lambda>p. 0)\<rparr>"

text \<open>A trace in which the name \<open>a\<close> is registered, and a catalog with two devices and
  the strong and weak forms of two dtypes.\<close>

definition example_trace :: tracectx where
  "example_trace = \<lparr>names = [''a''], name_gen = (\<lambda>ns. replicate (Suc (length ns)) CHR ''t'')\<rparr>"

definition example_catalogs :: catalogs where
  "example_catalogs =
     \<lparr>is_device = (\<lambda>x. x = Tok ''cpu'' \<or> x = Tok ''cuda''),
      is_dtype = (\<lambda>x. x = Tok ''float32'' \<or> x = Tok ''float32_''
                      \<or> x = Tok ''int64'' \<or> x = Tok ''int64_''),
      is_numbertype = (\<lambda>x. case x of PyType ty \<Rightarrow> True | Tok s \<Rightarrow> False),
      numbertype_to_dtype =
        (\<lambda>x. if x = PyType Float_t then Tok ''float32_''
              else if x = PyType Int_t then Tok ''int64_'' else x),
      to_strong_dtype =
        (\<lambda>x. if x = Tok ''float32_'' then Tok ''float32''
              else if x = Tok ''int64_'' then Tok ''int64'' else x)\<rparr>"

text \<open>
  A runtime that agrees with Python on the floating-point facts of the examples and
  reports OverflowError on every other floating-point request: \<open>float(2)\<close> and \<open>float(3)\<close>,
  \<open>2.0 - 2.5 = -0.5\<close>, \<open>3.0 - 2.5 = 0.5\<close> and \<open>2.0 + 2.5 = 4.5\<close>, on the IEEE bits of the
  numbers.
\<close>

definition float_runtime :: runtime where
  "float_runtime =
     example_runtime
       \<lparr>int_to_float :=
          (\<lambda>i. if i = 2 then Inr 0x4000000000000000
                else if i = 3 then Inr 0x4008000000000000
                else Inl OverflowError),
        float_arith :=
          (\<lambda>op x y.
             if op = Op_sub \<and> x = 0x4000000000000000 \<and> y = 0x4004000000000000
             then Inr (PyNum (PFloat 0xBFE0000000000000))
             else if op = Op_sub \<and> x = 0x4008000000000000 \<and> y = 0x4004000000000000
             then Inr (PyNum (PFloat 0x3FE0000000000000))
             else if op = Op_add \<and> x = 0x4000000000000000 \<and> y = 0x4004000000000000
             then Inr (PyNum (PFloat 0x4012000000000000))
             else Inl OverflowError)\<rparr>"

text \<open>
  The FloatProxy that \<open>numberproxy(float, 2)\<close> builds in the example trace: its value is
  the int 2, its numeric part the float 2.0.
\<close>

definition example_float_of_int :: number_proxy where
  "example_float_of_int =
     \<lparr>np_class = FloatProxy, np_name = ''tt'', np_value = Some (PInt 2),
      np_python_type = Float_t, np_base = Some (PFloat 0x4000000000000000)\<rparr>"

text \<open>A language context that records the call it receives as a tuple.\<close>

definition recording_ctx :: langctx where
  "recording_ctx m args = Inr (PyTuple (PyStr m # args))"

text \<open>
  Proxies as the constructors build them: two IntegerProxy instances with the values 3 and
  4, two FloatProxy instances of one name with the values 1.5 and 2.5, a ComplexProxy with
  the value 1+2j, and a TensorProxy of shape (2, 3).
\<close>

definition example_int3 :: number_proxy where
  "example_int3 =
     \<lparr>np_class = IntegerProxy, np_name = ''x'', np_value = Some (PInt 3),
      np_python_type = Int_t, np_base = Some (PInt 3)\<rparr>"


definition example_float1 :: number_proxy where
  "example_float1 =
     \<lparr>np_class = FloatProxy, np_name = ''f'', np_value = Some (PFloat 0x3FF8000000000000),
      np_python_type = Float_t, np_base = Some (PFloat 0x3FF8000000000000)\<rparr>"

definition example_float2 :: number_proxy where
  "example_float2 =
     \<lparr>np_class = FloatProxy, np_name = ''f'', np_value = Some (PFloat 0x4004000000000000),
      np_python_type = Float_t, np_base = Some (PFloat 0x4004000000000000)\<rparr>"

definition example_complex :: number_proxy where
  "example_complex =
     \<lparr>np_class = ComplexProxy, np_name = ''c'',
      np_value = Some (PComplex 0x3FF0000000000000 0x4000000000000000),
      np_python_type = Complex_t,
      np_base = Some (PComplex 0x3FF0000000000000 0x4000000000000000)\<rparr>"

definition example_tensor :: tensor_proxy where
  "example_tensor =
     \<lparr>tp_name = ''t'', tp_shape = [2, 3], tp_device = Tok ''cpu'',
      tp_dtype = Tok ''float32'', tp_true_dtype = Tok ''float32_'',
      tp_numel = 6, tp_ndim = 2\<rparr>"

section \<open>Basic facts\<close>

lemma seq_Inr [simp]: "seq (Inr x) f = f x"
  by (simp add: seq_def)

lemma seq_Inl [simp]: "seq (Inl e) f = Inl e"
  by (simp add: seq_def)

lemma rank_eq_iff: "rank a = rank b \<longleftrightarrow> a = b"
  by (cases a; cases b) simp_all

lemma has_slot_lower: "has_slot k op \<Longrightarrow> rank k' \<le> rank k \<Longrightarrow> has_slot k' op"
  by (cases k; cases k') auto

lemma foldl_mult: "foldl (*) (a::int) xs = a * prod_list xs"
  by (induction xs arbitrary: a) (simp_all add: mult.assoc)

lemma Proxy_init_Some:
  "n \<notin> set (names tr) \<Longrightarrow> Proxy_init tr (Some n) = Inr (n, tr\<lparr>names := n # names tr\<rparr>)"
  by (simp add: Proxy_init_def add_name_def)

section \<open>Variable\<close>

text \<open>
  C10, as the code has it: wrapping then unwrapping gives back every value that is not
  itself a Variable. A proxy is wrapped and unwrapped again; any other value that is not
  a Variable passes through both functions unchanged.
\<close>

theorem unvariableify_variableify:
  "\<not> is_Variable x \<Longrightarrow> unvariableify (variableify x) = x"
  by (cases x) simp_all

theorem unvariableify_variableify_witness:
  "\<not> is_Variable (Prx (PNum example_int3)) \<and>
   variableify (Prx (PNum example_int3)) = Variable (PNum example_int3) \<and>
   unvariableify (variableify (Prx (PNum example_int3))) = Prx (PNum example_int3)"
  using unvariableify_variableify [of "Prx (PNum example_int3)"] by simp

text \<open>
  A Variable is not a proxy, so \<open>variableify\<close> leaves it as it is and \<open>unvariableify\<close>
  unwraps it: the round trip of a Variable is the proxy inside, not the Variable.
\<close>

theorem unvariableify_variableify_counterexample:
  "unvariableify (variableify (Variable (PNum example_int3))) \<noteq> Variable (PNum example_int3)"
  by simp

text \<open>
  C7: two Variables are equal exactly when the names of their proxies are equal, whatever
  the other attributes; a Variable is equal to no object that is not a Variable, the
  proxy it wraps included; and the hash of a Variable is the hash of the name, so equal
  names give equal hashes.
\<close>

theorem Variable_eq_by_name:
  "Variable_eq p (Variable q) = (name p = name q) \<and>
   (\<not> is_Variable x \<longrightarrow> \<not> Variable_eq p x) \<and>
   \<not> Variable_eq p (Prx p) \<and>
   py_hash rt (Variable p) = Inr (str_hash rt (name p)) \<and>
   (name p = name q \<longrightarrow> py_hash rt (Variable p) = py_hash rt (Variable q))"
  by (cases x) (simp_all add: Variable_hash_def)

theorem Variable_eq_by_name_witness:
  "name (PNum example_float1) = name (PNum example_float2) \<and>
   np_value example_float1 \<noteq> np_value example_float2 \<and>
   Variable_eq (PNum example_float1) (Variable (PNum example_float2)) \<and>
   \<not> is_Variable (Prx (PNum example_float1)) \<and>
   \<not> Variable_eq (PNum example_float1) (Prx (PNum example_float1)) \<and>
   py_hash example_runtime (Variable (PNum example_float1)) =
     py_hash example_runtime (Variable (PNum example_float2))"
  using Variable_eq_by_name [of "PNum example_float1" "PNum example_float2"
      "Prx (PNum example_float1)" example_runtime]
  by (simp add: example_float1_def example_float2_def)

section \<open>Hashing\<close>

lemma hash_NumberProxy: "hash_proxy rt (PNum p) = Inr (hash_value rt (np_value p))"
  by (cases "np_class p") (simp_all add: hash_proxy_def NumberProxy_hash_def)

lemma hash_Proxy: "hash_proxy rt (PBase n) = Inr (object_hash rt (PBase n))"
  by (simp add: hash_proxy_def)

lemma hash_TensorProxy: "hash_proxy rt (PTen t) = Inl TypeError"
  by (simp add: hash_proxy_def)

text \<open>
  C8: the hash of a number proxy of any of the classes is the hash of its \<open>value\<close>, not of
  its name: for a known value it is \<open>hash\<close> of that number, for an unknown value it is
  \<open>hash(None)\<close>. So \<open>hash(IntegerProxy(name="a", value=5)) == hash(5)\<close>.
\<close>

theorem NumberProxy_hash_of_value:
  "py_hash rt (Prx (PNum p)) =
     (case np_value p of None \<Rightarrow> py_hash rt NoneObj | Some n \<Rightarrow> py_hash rt (PyNum n)) \<and>
   py_hash rt (Prx (PNum \<lparr>np_class = IntegerProxy, np_name = ''a'', np_value = Some (PInt 5),
                          np_python_type = Int_t, np_base = Some (PInt 5)\<rparr>)) =
     py_hash rt (PyNum (PInt 5))"
  by (simp add: hash_NumberProxy split: option.split)

text \<open>
  C2, as the code has it: a plain Proxy is hashable (by identity) and so is every number
  proxy (by value). A TensorProxy is not: its class defines \<open>__eq__\<close> without \<open>__hash__\<close>,
  and \<open>hash\<close> raises TypeError. Any proxy, a TensorProxy included, is used as a key through
  its Variable, whose hash is the hash of the name.
\<close>

theorem proxies_hashable_except_TensorProxy:
  "py_hash rt (Prx (PBase n)) = Inr (object_hash rt (PBase n)) \<and>
   py_hash rt (Prx (PNum p)) = Inr (hash_value rt (np_value p)) \<and>
   py_hash rt (Prx (PTen t)) = Inl TypeError \<and>
   py_hash rt (Variable (PTen t)) = Inr (str_hash rt (tp_name t))"
  by (simp add: hash_NumberProxy hash_Proxy hash_TensorProxy Variable_hash_def)

lemma TensorProxy_init_example:
  "TensorProxy_init example_catalogs example_trace (Some ''t'') None (Some [2, 3])
     (Some (Tok ''cpu'')) (Some (PyType Float_t)) =
   Inr (example_tensor, example_trace\<lparr>names := [''t'', ''a'']\<rparr>)"
  by (simp add: TensorProxy_init_def Proxy_init_def add_name_def example_trace_def
      example_catalogs_def check_valid_shape_def example_tensor_def)

lemma made_example_tensor: "made example_runtime example_catalogs (PTen example_tensor)"
  by (rule made_TensorProxy [OF TensorProxy_init_example])

text \<open>A constructed TensorProxy on which \<open>hash\<close> fails.\<close>

theorem TensorProxy_hash_counterexample:
  "made example_runtime example_catalogs (PTen example_tensor) \<and>
   py_hash example_runtime (Prx (PTen example_tensor)) = Inl TypeError"
  by (simp add: made_example_tensor hash_TensorProxy)

section \<open>Binary and shift operators of the number proxies\<close>





text \<open>
  Outside that case the method behaves as the native method does. When the other value is
  higher in the tower (\<open>IntegerProxy(value=3).__sub__(2.5)\<close>) it returns NotImplemented, as
  \<open>(3).__sub__(2.5)\<close> does, and Python's operator goes on to ask the other operand. When
  the type of the value has no such method (\<open>FloatProxy(value=2.5) << 1\<close>) the lookup raises
  AttributeError, where the native expression raises TypeError. With an unknown value the
  operator fails.
\<close>

lemma native_method_defers:
  assumes "np_value self = Some v" "pyval other = Inr (Some w)"
    and "has_slot (kind_of v) (op_of d)" "rank (kind_of v) < rank (kind_of w)"
  shows "native_method rt d self other = Inr NotImplementedObj"
  using assms by (simp add: native_method_def)

lemma native_method_missing:
  assumes "np_value self = Some v" "\<not> has_slot (kind_of v) (op_of d)"
  shows "native_method rt d self other = Inl AttributeError"
    and "spec_native rt d v w = Inl TypeError"
  using assms has_slot_lower [of "kind_of w" "op_of d" "kind_of v"]
  by (auto simp add: native_method_def spec_native_def)

lemma unknown_value_fails:
  assumes "np_value self = None"
  shows "\<exists>e. NumberProxy_binary rt None d self other = Inl e"
  using assms
  by (cases d; cases "pyval other") (simp_all add: native_method_def native_operator_def)


lemma binary_with_context:
  "NumberProxy_binary rt (Some ctx) d self other =
     ctx (ctx_method (op_of d)) (operands d (Prx (PNum self)) other)"
  by (cases d) (simp_all add: operands_def)

text \<open>
  What the direct and the reflected method of an operator return without a context, by
  the kinds of the value \<open>v\<close> of the left operand and the value \<open>w\<close> of the right one.
\<close>

lemma py_binary_cases:
  assumes "py_binary rt op (Some v) (Some w) = Inr r"
  shows "(has_slot (kind_of v) op \<and> rank (kind_of w) \<le> rank (kind_of v)) \<or>
         (has_slot (kind_of w) op \<and> rank (kind_of v) < rank (kind_of w))"
  using assms has_slot_lower [of "kind_of w" op "kind_of v"]
  by (auto split: if_splits slotres.splits simp add: rank_eq_iff not_le)

lemma direct_method:
  assumes "np_value p = Some v" "pyval y = Inr (Some w)"
  shows "NumberProxy_binary rt None (direct op) p y =
    (if op = Op_add \<or> op = Op_mul then py_binary rt op (Some v) (Some w)
     else if \<not> has_slot (kind_of v) op then Inl AttributeError
     else if rank (kind_of w) \<le> rank (kind_of v) then arith rt (kind_of v) op v w
     else Inr NotImplementedObj)"
  using assms
  by (cases op) (simp_all add: native_operator_def native_method_def del: py_binary.simps)

lemma swapped_method:
  assumes "np_value q = Some w" "pyval x = Inr (Some v)"
  shows "NumberProxy_binary rt None (swapped op) q x =
    (if op = Op_add \<or> op = Op_mul then py_binary rt op (Some v) (Some w)
     else if \<not> has_slot (kind_of w) op then Inl AttributeError
     else if rank (kind_of v) \<le> rank (kind_of w) then arith rt (kind_of w) op v w
     else Inr NotImplementedObj)"
  using assms
  by (cases op) (simp_all add: native_operator_def native_method_def del: py_binary.simps)



text \<open>
  \<open>numberproxy(float, 2)\<close> builds a FloatProxy whose value is the int 2.
\<close>

lemma numberproxy_float_of_int:
  "numberproxy float_runtime example_trace Float_t (Some (PInt 2)) =
     Inr (example_float_of_int, example_trace\<lparr>names := [''tt'', ''a'']\<rparr>)"
  by (simp add: numberproxy_def cls_to_number_proxy_map_def FloatProxy_init_def
      FloatProxy_new_def float_new_def NumberProxy_init_def Proxy_init_def make_name_def Let_def
      float_runtime_def example_runtime_def example_trace_def example_float_of_int_def)

lemma made_float_of_int: "made float_runtime example_catalogs (PNum example_float_of_int)"
proof -
  have "FloatProxy_init float_runtime example_trace None (Some (PInt 2)) =
      Inr (example_float_of_int, example_trace\<lparr>names := [''tt'', ''a'']\<rparr>)"
    using numberproxy_float_of_int
    by (simp add: numberproxy_def cls_to_number_proxy_map_def)
  then show ?thesis by (rule made_FloatProxy)
qed


text \<open>The sibling \<open>__add__\<close>, written with Python's operator, gives 4.5 on the same proxies.\<close>

lemma add_sibling:
  "binary_expression float_runtime None Op_add (Proxied example_float_of_int)
       (Proxied example_float2) = Inr (PyNum (PFloat 0x4012000000000000))"
  by (simp add: native_operator_def final_def float_runtime_def example_runtime_def
      example_float_of_int_def example_float2_def)

text \<open>
  A reflected operator: \<open>10 - IntegerProxy(value=3)\<close> reaches \<open>__rsub__\<close> first, the class
  of the proxy being a subclass of int; it gives 7 without a context and the record of
  \<open>sub(10, x)\<close> with the recording context.
\<close>

lemma rsub_example:
  "NumberProxy_binary example_runtime None D_rsub example_int3 (PyNum (PInt 10)) =
     Inr (PyNum (PInt 7)) \<and>
   binary_expression example_runtime None Op_sub (Plain (PInt 10)) (Proxied example_int3) =
     Inr (PyNum (PInt 7)) \<and>
   NumberProxy_binary example_runtime (Some recording_ctx) D_rsub example_int3
       (PyNum (PInt 10)) =
     Inr (PyTuple [PyStr ''sub'', PyNum (PInt 10), Prx (PNum example_int3)])"
  by (simp add: native_method_def recording_ctx_def example_int3_def)

text \<open>
  With a context, an expression whose left operand is a proxy is the context's answer,
  unless the context itself returns NotImplemented.
\<close>

lemma direct_dunder [simp]: "op_of (direct op) = op" "\<not> reflected (direct op)"
  by (cases op; simp)+

lemma expression_with_context:
  assumes "ctx (ctx_method op) [Prx (PNum p), obj y] = res" "res \<noteq> Inr NotImplementedObj"
  shows "binary_expression rt (Some ctx) op (Proxied p) y = res"
  using assms by (cases y) (simp_all add: binary_with_context operands_def final_def)

section \<open>Conversions and unary plus\<close>

text \<open>
  The conversions as the three classes write them: \<open>__int__\<close> of an IntegerProxy and
  \<open>__float__\<close> of a FloatProxy return the proxy, every conversion to another kind fails in
  its \<open>raise\<close> statement.
\<close>

lemma conversions_of_IntegerProxy:
  assumes "np_class p = IntegerProxy"
  shows "convert To_int p = Inr (Prx (PNum p))"
    and "convert To_float p = Inl TypeError"
    and "convert To_complex p = Inl TypeError"
  using assms
  by (simp_all add: IntegerProxy_int_def IntegerProxy_float_def IntegerProxy_complex_def)

lemma conversions_of_FloatProxy:
  assumes "np_class p = FloatProxy"
  shows "convert To_float p = Inr (Prx (PNum p))"
    and "convert To_int p = Inl TypeError"
    and "convert To_complex p = Inl TypeError"
  using assms
  by (simp_all add: FloatProxy_int_def FloatProxy_float_def FloatProxy_complex_def)

lemma conversions_of_ComplexProxy:
  assumes "np_class p = ComplexProxy"
  shows "convert To_int p = Inl TypeError"
    and "convert To_float p = Inl TypeError"
  using assms
  by (simp_all add: ComplexProxy_int_def ComplexProxy_float_def)

text \<open>
  C3 at \<open>ComplexProxy(value=1+2j).__complex__()\<close>: the conversion of a ComplexProxy to its
  own kind does not return the proxy. The method is written \<open>raise self\<close>, and a proxy is
  not an exception, so the call fails with TypeError.
\<close>

theorem ComplexProxy_complex_fails:
  "own_conversion (np_class example_complex) = Some To_complex \<and>
   convert To_complex example_complex = Inl TypeError"
  by (simp add: example_complex_def ComplexProxy_complex_def)

text \<open>
  C4 at \<open>+IntegerProxy(value=3)\<close>: unary plus on a number proxy does not return the proxy.
  \<open>__pos__\<close> of the three number classes reads the name \<open>langctx\<close>, which is bound neither
  in the method nor in the module, and fails with NameError, with or without an active
  context. \<open>__pos__\<close> of a TensorProxy returns the proxy.
\<close>

theorem NumberProxy_pos_fails:
  "NumberProxy_pos None example_int3 = Inl NameError \<and>
   NumberProxy_pos (Some recording_ctx) example_int3 = Inl NameError \<and>
   TensorProxy_pos None example_tensor = Inr (Prx (PTen example_tensor)) \<and>
   TensorProxy_pos (Some recording_ctx) example_tensor = Inr (Prx (PTen example_tensor))"
  by (simp add: NumberProxy_pos_def load_global_def module_globals_def TensorProxy_pos_def)

lemma NumberProxy_pos_NameError: "NumberProxy_pos lc self = Inl NameError"
  by (simp add: NumberProxy_pos_def load_global_def module_globals_def)

lemma TensorProxy_pos_self: "TensorProxy_pos lc t = Inr (Prx (PTen t))"
  by (simp add: TensorProxy_pos_def)

section \<open>Construction and renaming\<close>

lemma NumberProxy_init_result:
  assumes "NumberProxy_init tr cls base nm v ty = Inr (p, tr')"
  shows "np_class p = cls" "np_value p = v" "np_python_type p = ty" "np_base p = base"
  using assms
  by (auto simp add: NumberProxy_init_def seq_def split: sum.splits prod.splits)

lemma NumberProxy_init_Some:
  assumes "n \<notin> set (names tr)"
  shows "NumberProxy_init tr cls base (Some n) v ty =
    Inr (\<lparr>np_class = cls, np_name = n, np_value = v, np_python_type = ty, np_base = base\<rparr>,
         tr\<lparr>names := n # names tr\<rparr>)"
  using assms by (simp add: NumberProxy_init_def Proxy_init_Some)

lemma number_proxy_rename:
  assumes "np_class p = cls" "np_value p = v" "np_python_type p = ty" "np_base p = base"
  shows "\<lparr>np_class = cls, np_name = n, np_value = v, np_python_type = ty, np_base = base\<rparr>
    = p\<lparr>np_name := n\<rparr>"
  using assms by (cases p) simp

lemma replace_name_NumberProxy:
  assumes "NumberProxy_init tr0 NumberProxy None nm v ty = Inr (p, tr1)"
    and "n \<notin> set (names tr)"
  shows "NumberProxy_replace_name tr p (Some n) =
    Inr (p\<lparr>np_name := n\<rparr>, tr\<lparr>names := n # names tr\<rparr>)"
  using NumberProxy_init_result [OF assms(1)] assms(2)
  by (simp add: NumberProxy_replace_name_def NumberProxy_init_Some number_proxy_rename)

lemma replace_name_ComplexProxy:
  assumes "ComplexProxy_init rt tr0 nm v = Inr (p, tr1)"
    and "n \<notin> set (names tr)"
  shows "np_class p = ComplexProxy"
    and "ComplexProxy_replace_name rt tr p (Some n) =
      Inr (p\<lparr>np_name := n\<rparr>, tr\<lparr>names := n # names tr\<rparr>)"
proof -
  from assms(1) obtain base where b: "ComplexProxy_new rt v = Inr base"
    and i: "NumberProxy_init tr0 ComplexProxy (Some base) nm v Complex_t = Inr (p, tr1)"
    by (cases "ComplexProxy_new rt v") (simp_all add: ComplexProxy_init_def)
  note r = NumberProxy_init_result [OF i]
  show "np_class p = ComplexProxy" by (rule r(1))
  show "ComplexProxy_replace_name rt tr p (Some n) =
      Inr (p\<lparr>np_name := n\<rparr>, tr\<lparr>names := n # names tr\<rparr>)"
    using r b assms(2)
    by (simp add: ComplexProxy_replace_name_def ComplexProxy_init_def NumberProxy_init_Some
        number_proxy_rename)
qed

lemma replace_name_IntegerProxy:
  assumes "IntegerProxy_init rt tr0 nm v = Inr (p, tr1)"
    and "n \<notin> set (names tr)"
  shows "np_class p = IntegerProxy"
    and "IntegerProxy_replace_name rt tr p (Some n) =
      Inr (p\<lparr>np_name := n\<rparr>, tr\<lparr>names := n # names tr\<rparr>)"
proof -
  from assms(1) obtain base where b: "IntegerProxy_new rt v = Inr base"
    and i: "NumberProxy_init tr0 IntegerProxy (Some base) nm v
              (if is_bool v then Bool_t else Int_t) = Inr (p, tr1)"
    by (cases "IntegerProxy_new rt v") (simp_all add: IntegerProxy_init_def)
  note r = NumberProxy_init_result [OF i]
  show "np_class p = IntegerProxy" by (rule r(1))
  show "IntegerProxy_replace_name rt tr p (Some n) =
      Inr (p\<lparr>np_name := n\<rparr>, tr\<lparr>names := n # names tr\<rparr>)"
    using r b assms(2)
    by (simp add: IntegerProxy_replace_name_def IntegerProxy_init_def NumberProxy_init_Some
        number_proxy_rename)
qed

lemma replace_name_FloatProxy:
  assumes "FloatProxy_init rt tr0 nm v = Inr (p, tr1)"
    and "n \<notin> set (names tr)"
  shows "np_class p = FloatProxy"
    and "FloatProxy_replace_name rt tr p (Some n) =
      Inr (p\<lparr>np_name := n\<rparr>, tr\<lparr>names := n # names tr\<rparr>)"
proof -
  from assms(1) obtain base where b: "FloatProxy_new rt v = Inr base"
    and i: "NumberProxy_init tr0 FloatProxy (Some base) nm v Float_t = Inr (p, tr1)"
    by (cases "FloatProxy_new rt v") (simp_all add: FloatProxy_init_def)
  note r = NumberProxy_init_result [OF i]
  show "np_class p = FloatProxy" by (rule r(1))
  show "FloatProxy_replace_name rt tr p (Some n) =
      Inr (p\<lparr>np_name := n\<rparr>, tr\<lparr>names := n # names tr\<rparr>)"
    using r b assms(2)
    by (simp add: FloatProxy_replace_name_def FloatProxy_init_def NumberProxy_init_Some
        number_proxy_rename)
qed

text \<open>What a successful \<open>TensorProxy.__init__\<close> has established.\<close>

lemma TensorProxy_init_fields:
  assumes "TensorProxy_init cat tr nm like shape device dtype = Inr (t, tr')"
  shows "tp_numel t = prod_list (tp_shape t)" "tp_ndim t = length (tp_shape t)"
    "check_valid_shape (tp_shape t)" "is_device cat (tp_device t)"
    "is_dtype cat (tp_true_dtype t)" "tp_dtype t = to_strong_dtype cat (tp_true_dtype t)"
  using assms
  by (auto simp add: TensorProxy_init_def seq_def Let_def foldl_mult
      split: sum.splits prod.splits option.splits if_splits)

lemma TensorProxy_init_like_shape:
  assumes "TensorProxy_init cat tr nm (Some l) None device dtype = Inr (t, tr')"
  shows "tp_shape t = tp_shape l"
  using assms
  by (auto simp add: TensorProxy_init_def seq_def Let_def
      split: sum.splits prod.splits option.splits if_splits)

lemma TensorProxy_like:
  assumes "tp_numel t = prod_list (tp_shape t)" "tp_ndim t = length (tp_shape t)"
    "check_valid_shape (tp_shape t)" "is_device cat (tp_device t)"
    "is_dtype cat (tp_true_dtype t)" "tp_dtype t = to_strong_dtype cat (tp_true_dtype t)"
    and "\<not> is_numbertype cat (tp_true_dtype t)"
    and "n \<notin> set (names tr)"
  shows "TensorProxy_replace_name cat tr t (Some n) =
    Inr (t\<lparr>tp_name := n\<rparr>, tr\<lparr>names := n # names tr\<rparr>)"
  using assms
  by (cases t)
     (simp add: TensorProxy_replace_name_def TensorProxy_init_def Proxy_init_Some foldl_mult)

lemma replace_name_TensorProxy:
  assumes "TensorProxy_init cat tr0 nm like shape device dtype = Inr (t, tr1)"
    and "\<And>d. is_dtype cat d \<Longrightarrow> \<not> is_numbertype cat d"
    and "n \<notin> set (names tr)"
  shows "TensorProxy_replace_name cat tr t (Some n) =
    Inr (t\<lparr>tp_name := n\<rparr>, tr\<lparr>names := n # names tr\<rparr>)"
proof -
  note f = TensorProxy_init_fields [OF assms(1)]
  from f(5) assms(2) have "\<not> is_numbertype cat (tp_true_dtype t)" by blast
  with f assms(3) show ?thesis by (intro TensorProxy_like)
qed

text \<open>
  C5: for a proxy built by a constructor of the module and a name that the trace does
  not hold yet, \<open>replace_name\<close> returns a proxy of the same class that differs from the
  original in the name only: \<open>value\<close>, \<open>python_type\<close> and the numeric part of a number
  proxy, and \<open>shape\<close>, \<open>device\<close>, \<open>dtype\<close>, \<open>true_dtype\<close>, \<open>numel\<close> and \<open>ndim\<close> of a tensor
  proxy are those of the original; the name is registered in the trace. The catalog is
  one in which no dtype object is a Python number type.
\<close>

theorem replace_name_keeps_attributes:
  assumes "made rt cat p"
    and "n \<notin> set (names tr)"
    and "\<And>d. is_dtype cat d \<Longrightarrow> \<not> is_numbertype cat d"
  shows "replace_name rt cat tr p (Some n) = Inr (rename p n, tr\<lparr>names := n # names tr\<rparr>)"
  using assms(1)
proof cases
  case (made_Proxy tr0 nm m tr1)
  with assms(2) show ?thesis
    by (simp add: Proxy_replace_name_def Proxy_init_Some)
next
  case (made_NumberProxy tr0 nm v ty q tr1)
  from NumberProxy_init_result(1) [OF made_NumberProxy(2)]
    replace_name_NumberProxy [OF made_NumberProxy(2) assms(2)] made_NumberProxy(1)
  show ?thesis by simp
next
  case (made_ComplexProxy tr0 nm v q tr1)
  from replace_name_ComplexProxy [OF made_ComplexProxy(2) assms(2)] made_ComplexProxy(1)
  show ?thesis by simp
next
  case (made_IntegerProxy tr0 nm v q tr1)
  from replace_name_IntegerProxy [OF made_IntegerProxy(2) assms(2)] made_IntegerProxy(1)
  show ?thesis by simp
next
  case (made_FloatProxy tr0 nm v q tr1)
  from replace_name_FloatProxy [OF made_FloatProxy(2) assms(2)] made_FloatProxy(1)
  show ?thesis by simp
next
  case (made_TensorProxy tr0 nm like shape device dtype t tr1)
  from replace_name_TensorProxy [OF made_TensorProxy(2) assms(3) assms(2)] made_TensorProxy(1)
  show ?thesis by simp
qed

lemma example_catalogs_dtypes:
  "is_dtype example_catalogs d \<Longrightarrow> \<not> is_numbertype example_catalogs d"
  by (auto simp add: example_catalogs_def)

lemma example_name_fresh: "''y'' \<notin> set (names example_trace)"
  by (simp add: example_trace_def)

text \<open>
  The TensorProxy of shape (2, 3) on device cpu with dtype float32, renamed to \<open>y\<close>: the
  result has shape (2, 3), device cpu, dtype float32, the weak float32 as \<open>true_dtype\<close>,
  numel 6, ndim 2 and the name \<open>y\<close>.
\<close>

theorem replace_name_keeps_attributes_witness:
  "made example_runtime example_catalogs (PTen example_tensor) \<and>
   ''y'' \<notin> set (names example_trace) \<and>
   replace_name example_runtime example_catalogs example_trace (PTen example_tensor) (Some ''y'') =
     Inr (PTen \<lparr>tp_name = ''y'', tp_shape = [2, 3], tp_device = Tok ''cpu'',
                 tp_dtype = Tok ''float32'', tp_true_dtype = Tok ''float32_'',
                 tp_numel = 6, tp_ndim = 2\<rparr>,
          example_trace\<lparr>names := [''y'', ''a'']\<rparr>)"
proof -
  have r: "replace_name example_runtime example_catalogs example_trace (PTen example_tensor)
      (Some ''y'') =
    Inr (rename (PTen example_tensor) ''y'', example_trace\<lparr>names := ''y'' # names example_trace\<rparr>)"
    by (rule replace_name_keeps_attributes [OF made_example_tensor example_name_fresh
          example_catalogs_dtypes])
  have e: "rename (PTen example_tensor) ''y'' =
    PTen \<lparr>tp_name = ''y'', tp_shape = [2, 3], tp_device = Tok ''cpu'',
          tp_dtype = Tok ''float32'', tp_true_dtype = Tok ''float32_'',
          tp_numel = 6, tp_ndim = 2\<rparr>"
    by (simp add: example_tensor_def)
  have t: "example_trace\<lparr>names := ''y'' # names example_trace\<rparr> =
    example_trace\<lparr>names := [''y'', ''a'']\<rparr>"
    by (simp add: example_trace_def)
  from r e t made_example_tensor example_name_fresh show ?thesis by simp
qed

text \<open>
  C6: a TensorProxy that \<open>__init__\<close> has built has \<open>numel\<close> equal to the product of the
  extents of its shape (1 for the empty shape) and \<open>ndim\<close> equal to their number. No method
  of the class assigns the two attributes again; \<open>replace_name\<close>, which builds a new
  instance from this one, gives it the same shape, \<open>numel\<close> and \<open>ndim\<close>.
\<close>

theorem TensorProxy_numel_ndim:
  assumes "TensorProxy_init cat tr nm like shape device dtype = Inr (t, tr')"
  shows "tp_numel t = prod_list (tp_shape t) \<and> tp_ndim t = length (tp_shape t) \<and>
    (\<forall>tr2 n q tr3. TensorProxy_replace_name cat tr2 t n = Inr (q, tr3) \<longrightarrow>
       tp_shape q = tp_shape t \<and> tp_numel q = tp_numel t \<and> tp_ndim q = tp_ndim t)"
proof -
  note f = TensorProxy_init_fields(1,2) [OF assms]
  have "tp_shape q = tp_shape t \<and> tp_numel q = tp_numel t \<and> tp_ndim q = tp_ndim t"
    if r: "TensorProxy_replace_name cat tr2 t n = Inr (q, tr3)" for tr2 n q tr3
  proof -
    from r have i: "TensorProxy_init cat tr2 n (Some t) None None None = Inr (q, tr3)"
      by (simp add: TensorProxy_replace_name_def)
    from TensorProxy_init_like_shape [OF i] TensorProxy_init_fields(1,2) [OF i] f
    show ?thesis by simp
  qed
  with f show ?thesis by blast
qed

lemma TensorProxy_init_234:
  "TensorProxy_init example_catalogs example_trace (Some ''u'') None (Some [2, 3, 4])
     (Some (Tok ''cuda'')) (Some (Tok ''int64'')) =
   Inr (\<lparr>tp_name = ''u'', tp_shape = [2, 3, 4], tp_device = Tok ''cuda'',
         tp_dtype = Tok ''int64'', tp_true_dtype = Tok ''int64'',
         tp_numel = 24, tp_ndim = 3\<rparr>, example_trace\<lparr>names := [''u'', ''a'']\<rparr>)"
  by (simp add: TensorProxy_init_def Proxy_init_def add_name_def example_trace_def
      example_catalogs_def check_valid_shape_def)

lemma TensorProxy_init_scalar:
  "TensorProxy_init example_catalogs example_trace (Some ''s'') None (Some [])
     (Some (Tok ''cpu'')) (Some (Tok ''float32'')) =
   Inr (\<lparr>tp_name = ''s'', tp_shape = [], tp_device = Tok ''cpu'',
         tp_dtype = Tok ''float32'', tp_true_dtype = Tok ''float32'',
         tp_numel = 1, tp_ndim = 0\<rparr>, example_trace\<lparr>names := [''s'', ''a'']\<rparr>)"
  by (simp add: TensorProxy_init_def Proxy_init_def add_name_def example_trace_def
      example_catalogs_def check_valid_shape_def)

text \<open>The shape (2, 3, 4) gives numel 24 and ndim 3, the empty shape numel 1 and ndim 0.\<close>

theorem TensorProxy_numel_ndim_witness:
  "TensorProxy_init example_catalogs example_trace (Some ''u'') None (Some [2, 3, 4])
     (Some (Tok ''cuda'')) (Some (Tok ''int64'')) =
   Inr (\<lparr>tp_name = ''u'', tp_shape = [2, 3, 4], tp_device = Tok ''cuda'',
         tp_dtype = Tok ''int64'', tp_true_dtype = Tok ''int64'',
         tp_numel = 24, tp_ndim = 3\<rparr>, example_trace\<lparr>names := [''u'', ''a'']\<rparr>) \<and>
   (24::int) = prod_list [2, 3, 4] \<and> (3::nat) = length [2, 3, 4 :: int] \<and>
   TensorProxy_init example_catalogs example_trace (Some ''s'') None (Some [])
     (Some (Tok ''cpu'')) (Some (Tok ''float32'')) =
   Inr (\<lparr>tp_name = ''s'', tp_shape = [], tp_device = Tok ''cpu'',
         tp_dtype = Tok ''float32'', tp_true_dtype = Tok ''float32'',
         tp_numel = 1, tp_ndim = 0\<rparr>, example_trace\<lparr>names := [''s'', ''a'']\<rparr>) \<and>
   (1::int) = prod_list [] \<and> (0::nat) = length ([] :: int list)"
  using TensorProxy_numel_ndim [OF TensorProxy_init_234]
    TensorProxy_numel_ndim [OF TensorProxy_init_scalar]
    TensorProxy_init_234 TensorProxy_init_scalar
  by simp

section \<open>numberproxy\<close>

text \<open>
  For the three kinds that the dictionary holds, \<open>numberproxy\<close> builds the variant under a
  name made by the trace; shown here on values of the requested kind.
\<close>

lemma numberproxy_int:
  "numberproxy rt tr Int_t (Some (PInt i)) =
   Inr (\<lparr>np_class = IntegerProxy, np_name = fst (make_name tr), np_value = Some (PInt i),
         np_python_type = Int_t, np_base = Some (PInt i)\<rparr>, snd (make_name tr))"
  by (simp add: numberproxy_def cls_to_number_proxy_map_def IntegerProxy_init_def
      IntegerProxy_new_def NumberProxy_init_def Proxy_init_def split: prod.split)

lemma numberproxy_bool:
  "numberproxy rt tr Bool_t (Some (PBool b)) =
   Inr (\<lparr>np_class = IntegerProxy, np_name = fst (make_name tr), np_value = Some (PBool b),
         np_python_type = Bool_t, np_base = Some (PInt (if b then 1 else 0))\<rparr>,
        snd (make_name tr))"
  by (simp add: numberproxy_def cls_to_number_proxy_map_def IntegerProxy_init_def
      IntegerProxy_new_def NumberProxy_init_def Proxy_init_def split: prod.split)

lemma numberproxy_float:
  "numberproxy rt tr Float_t (Some (PFloat f)) =
   Inr (\<lparr>np_class = FloatProxy, np_name = fst (make_name tr), np_value = Some (PFloat f),
         np_python_type = Float_t, np_base = Some (PFloat f)\<rparr>, snd (make_name tr))"
  by (simp add: numberproxy_def cls_to_number_proxy_map_def FloatProxy_init_def
      FloatProxy_new_def float_new_def NumberProxy_init_def Proxy_init_def split: prod.split)

text \<open>
  C9 at \<open>numberproxy(complex, 1+2j)\<close>: the kind complex is not a key of
  \<open>_cls_to_number_proxy_map\<close>, so the lookup raises KeyError and no ComplexProxy is built.
\<close>

theorem numberproxy_complex_KeyError:
  "numberproxy example_runtime example_trace Complex_t
     (Some (PComplex 0x3FF0000000000000 0x4000000000000000)) = Inl KeyError"
  by (simp add: numberproxy_def cls_to_number_proxy_map_def)

end
